theory Spec2Isabelle
  imports Complex_Main
begin

section \<open>Data model\<close>

text \<open>
  JavaScript numbers are modelled as real numbers: the fit checks only multiply,
  divide by constants, add and compare, and the model abstracts from the rounding of
  IEEE doubles and from the non-finite values. Where the source can produce \<open>NaN\<close>
  (\<open>parseFloat\<close>), the model uses \<open>real option\<close> with \<open>None\<close> for \<open>NaN\<close>.
\<close>

text \<open>\<open>FurnitureModel.dimensions\<close> (models/FurnitureModels.ts), in centimetres.\<close>

record Dimensions =
  width :: real
  height :: real
  depth :: real

datatype furniture_type = sofa | table | shelf

text \<open>
  \<open>FurnitureModel\<close>; the field \<open>createGeometry\<close> (a constructor of a rendering
  geometry) plays no part in any check and is left out. The fields \<open>id\<close>, \<open>name\<close>
  and \<open>type\<close> carry a prefix.
\<close>

record FurnitureModel =
  model_id :: string
  model_name :: string
  model_type :: furniture_type
  dimensions :: Dimensions
  color :: string

text \<open>The catalogue \<open>furniturePresets\<close>.\<close>

definition furniturePresets :: "FurnitureModel list" where
  "furniturePresets =
     [\<lparr> model_id = ''sofa-1'', model_name = ''3-Seater Sofa'', model_type = sofa,
        dimensions = \<lparr> width = 200, height = 85, depth = 90 \<rparr>, color = ''#8B4513'' \<rparr>,
      \<lparr> model_id = ''table-1'', model_name = ''Dining Table'', model_type = table,
        dimensions = \<lparr> width = 160, height = 75, depth = 90 \<rparr>, color = ''#654321'' \<rparr>,
      \<lparr> model_id = ''shelf-1'', model_name = ''Bookshelf'', model_type = shelf,
        dimensions = \<lparr> width = 80, height = 180, depth = 35 \<rparr>, color = ''#A0522D'' \<rparr>,
      \<lparr> model_id = ''sofa-2'', model_name = ''2-Seater Sofa'', model_type = sofa,
        dimensions = \<lparr> width = 150, height = 85, depth = 90 \<rparr>, color = ''#696969'' \<rparr>,
      \<lparr> model_id = ''table-2'', model_name = ''Coffee Table'', model_type = table,
        dimensions = \<lparr> width = 120, height = 45, depth = 60 \<rparr>, color = ''#8B7355'' \<rparr>]"

text \<open>The components' \<open>furniturePosition\<close> state, \<open>{x, y}\<close>.\<close>

record Position =
  pos_x :: real
  pos_y :: real

text \<open>\<open>roomDimensions\<close>, a prop of the room-based viewers, in centimetres.\<close>

record RoomDimensions =
  room_width :: real
  room_height :: real
  room_depth :: real

section \<open>Room-based viewers: SimpleARViewer and CameraARViewer\<close>

text \<open>The two hooks \<open>furnitureScale\<close> and \<open>furniturePosition\<close> of a viewer.\<close>

record Placement =
  furniturePosition :: Position
  furnitureScale :: real

text \<open>\<open>checkFit\<close> of SimpleARViewer.\<close>

definition simple_checkFit ::
  "FurnitureModel option \<Rightarrow> Placement \<Rightarrow> RoomDimensions \<Rightarrow> bool" where
  "simple_checkFit selectedFurniture st roomDimensions =
     (case selectedFurniture of
        None \<Rightarrow> True
      | Some f \<Rightarrow>
          (let scaledWidth = width (dimensions f) * furnitureScale st;
               scaledDepth = depth (dimensions f) * furnitureScale st
           in scaledWidth \<le> room_width roomDimensions \<and> scaledDepth \<le> room_depth roomDimensions))"

text \<open>\<open>checkFit\<close> of CameraARViewer.\<close>

definition camera_checkFit ::
  "FurnitureModel option \<Rightarrow> Placement \<Rightarrow> RoomDimensions \<Rightarrow> bool" where
  "camera_checkFit selectedFurniture st roomDimensions =
     (case selectedFurniture of
        None \<Rightarrow> True
      | Some f \<Rightarrow>
          (let scaledWidth = width (dimensions f) * furnitureScale st;
               scaledDepth = depth (dimensions f) * furnitureScale st
           in scaledWidth \<le> room_width roomDimensions \<and> scaledDepth \<le> room_depth roomDimensions))"

text \<open>The initial values of the hooks of SimpleARViewer.\<close>

definition simple_initial :: Placement where
  "simple_initial = \<lparr> furniturePosition = \<lparr> pos_x = 50, pos_y = 50 \<rparr>, furnitureScale = 1 \<rparr>"

text \<open>\<open>adjustScale\<close> of SimpleARViewer: the updater passed to \<open>setFurnitureScale\<close>.\<close>

definition simple_adjustScale :: "bool \<Rightarrow> real \<Rightarrow> real" where
  "simple_adjustScale increase prev =
     (let newScale = (if increase then prev * 1.1 else prev * 0.9)
      in max 0.1 (min 3 newScale))"

section \<open>The 3-D room check (models/FurnitureModels.ts)\<close>

text \<open>\<open>THREE.Vector3\<close>, of which only the three coordinates are read.\<close>

record Vector3 =
  vx :: real
  vy :: real
  vz :: real

record RoomBounds =
  minX :: real
  maxX :: real
  minY :: real
  maxY :: real
  minZ :: real
  maxZ :: real

definition getRoomBounds :: "RoomDimensions \<Rightarrow> RoomBounds" where
  "getRoomBounds roomDimensions =
     \<lparr> minX = - room_width roomDimensions / 200,
       maxX = room_width roomDimensions / 200,
       minY = 0,
       maxY = room_height roomDimensions / 100,
       minZ = - room_depth roomDimensions / 200,
       maxZ = room_depth roomDimensions / 200 \<rparr>"

definition checkFit :: "FurnitureModel \<Rightarrow> Vector3 \<Rightarrow> RoomDimensions \<Rightarrow> bool" where
  "checkFit furnitureModel position roomDimensions =
     (let bounds = getRoomBounds roomDimensions;
          halfWidth = width (dimensions furnitureModel) / 200;
          halfHeight = height (dimensions furnitureModel) / 200;
          halfDepth = depth (dimensions furnitureModel) / 200
      in vx position - halfWidth \<ge> minX bounds \<and>
         vx position + halfWidth \<le> maxX bounds \<and>
         vy position \<ge> minY bounds \<and>
         vy position + halfHeight \<le> maxY bounds \<and>
         vz position - halfDepth \<ge> minZ bounds \<and>
         vz position + halfDepth \<le> maxZ bounds)"

section \<open>Screen-space viewers: the shared overlap test\<close>

text \<open>
  Every \<open>checkCollision\<close> computes the same local constant \<open>overlaps\<close> from the four
  edges of the furniture rectangle and the four edges of a zone, region or bounding box:
  \<^verbatim>\<open>!(furnitureRight < x || furnitureLeft > right || furnitureBottom < y || furnitureTop > bottom)\<close>
\<close>

definition overlaps :: "real \<Rightarrow> real \<Rightarrow> real \<Rightarrow> real \<Rightarrow> real \<Rightarrow> real \<Rightarrow> real \<Rightarrow> real \<Rightarrow> bool" where
  "overlaps furnitureLeft furnitureRight furnitureTop furnitureBottom zoneX zoneY zoneRight zoneBottom =
     (\<not> (furnitureRight < zoneX \<or> furnitureLeft > zoneRight \<or>
         furnitureBottom < zoneY \<or> furnitureTop > zoneBottom))"

text \<open>The window size, \<open>Dimensions.get('window')\<close>.\<close>

record Screen =
  screenWidth :: real
  screenHeight :: real

section \<open>SmartARViewer\<close>

text \<open>An entry of \<open>obstacleZones\<close>, and equally a \<open>boundingBox\<close>: \<open>{x, y, width, height}\<close>.\<close>

record Box =
  box_x :: real
  box_y :: real
  box_width :: real
  box_height :: real

text \<open>The hooks \<open>furniturePosition\<close>, \<open>furnitureScale\<close> and \<open>isPlaced\<close>.\<close>

record SmartPlacement = Placement +
  isPlaced :: bool

text \<open>\<open>checkCollision\<close>: the loop over \<open>obstacleZones\<close> returns at the first overlap.\<close>

fun smart_checkCollision :: "Box list \<Rightarrow> real \<Rightarrow> real \<Rightarrow> real \<Rightarrow> real \<Rightarrow> bool" where
  "smart_checkCollision [] furnitureX furnitureY furnitureW furnitureH = False"
| "smart_checkCollision (zone # zones) furnitureX furnitureY furnitureW furnitureH =
     (let furnitureLeft = furnitureX - furnitureW / 2;
          furnitureRight = furnitureX + furnitureW / 2;
          furnitureTop = furnitureY - furnitureH / 2;
          furnitureBottom = furnitureY + furnitureH / 2;
          zoneRight = box_x zone + box_width zone;
          zoneBottom = box_y zone + box_height zone
      in if overlaps furnitureLeft furnitureRight furnitureTop furnitureBottom
              (box_x zone) (box_y zone) zoneRight zoneBottom
         then True
         else smart_checkCollision zones furnitureX furnitureY furnitureW furnitureH)"

definition smart_checkFit ::
  "FurnitureModel option \<Rightarrow> SmartPlacement \<Rightarrow> Screen \<Rightarrow> Box list \<Rightarrow> bool" where
  "smart_checkFit selectedFurniture st scr obstacleZones =
     (case selectedFurniture of
        None \<Rightarrow> True
      | Some f \<Rightarrow>
          (let furnitureWidth = width (dimensions f) * furnitureScale st;
               furnitureHeight = height (dimensions f) * furnitureScale st;
               hasCollision = smart_checkCollision obstacleZones
                 (pos_x (furniturePosition st)) (pos_y (furniturePosition st))
                 furnitureWidth furnitureHeight;
               withinBounds =
                 (pos_x (furniturePosition st) > furnitureWidth / 2 \<and>
                  pos_x (furniturePosition st) < screenWidth scr - furnitureWidth / 2 \<and>
                  pos_y (furniturePosition st) > furnitureHeight / 2 \<and>
                  pos_y (furniturePosition st) < screenHeight scr - furnitureHeight / 2);
               reasonableSize =
                 (furnitureWidth < screenWidth scr * 0.6 \<and> furnitureHeight < screenHeight scr * 0.4)
           in \<not> hasCollision \<and> withinBounds \<and> reasonableSize))"

definition smart_adjustScale :: "bool \<Rightarrow> real \<Rightarrow> real" where
  "smart_adjustScale increase prev =
     (let newScale = (if increase then prev * 1.2 else prev * 0.8)
      in max 0.1 (min 1.5 newScale))"

definition smart_resetPlacement :: "Screen \<Rightarrow> SmartPlacement \<Rightarrow> SmartPlacement" where
  "smart_resetPlacement scr st =
     st\<lparr> furniturePosition := \<lparr> pos_x = screenWidth scr / 2, pos_y = screenHeight scr * 0.7 \<rparr>,
         furnitureScale := 0.3,
         isPlaced := False \<rparr>"

text \<open>The initial values of the three hooks.\<close>

definition smart_initial :: "Screen \<Rightarrow> SmartPlacement" where
  "smart_initial scr =
     \<lparr> furniturePosition = \<lparr> pos_x = screenWidth scr / 2, pos_y = screenHeight scr / 2 \<rparr>,
       furnitureScale = 0.3,
       isPlaced = False \<rparr>"

text \<open>
  The events that change the placement of SmartARViewer: a drag
  (\<open>onPanResponderMove\<close>, with the absolute pointer coordinates), the end of a drag
  (\<open>onPanResponderRelease\<close>), the two scale buttons and the reset button.
\<close>

datatype smart_event = SmartMove real real | SmartRelease | SmartScale bool | SmartReset

fun smart_step :: "Screen \<Rightarrow> SmartPlacement \<Rightarrow> smart_event \<Rightarrow> SmartPlacement" where
  "smart_step scr st (SmartMove moveX moveY) =
     st\<lparr> furniturePosition := \<lparr> pos_x = moveX, pos_y = moveY \<rparr>, isPlaced := True \<rparr>"
| "smart_step scr st SmartRelease = st\<lparr> isPlaced := True \<rparr>"
| "smart_step scr st (SmartScale increase) =
     st\<lparr> furnitureScale := smart_adjustScale increase (furnitureScale st) \<rparr>"
| "smart_step scr st SmartReset = smart_resetPlacement scr st"

section \<open>Numbers in template literals\<close>

text \<open>
  \<open>Math.round\<close> rounds to the nearest integer, a half towards plus infinity. A template
  literal prints an integral number of less than 22 digits in decimal, with a minus
  sign when negative.
\<close>

definition Math_round :: "real \<Rightarrow> int" where
  "Math_round v = \<lfloor>v + 1 / 2\<rfloor>"

text \<open>The character of a decimal digit \<open>d < 10\<close>; it is only applied to such digits.\<close>

definition digit_char :: "nat \<Rightarrow> char" where
  "digit_char d = ''0123456789'' ! d"

text \<open>The decimal digits of a natural number, most significant first, before \<open>rest\<close>.\<close>

fun digits_before :: "nat \<Rightarrow> string \<Rightarrow> string" where
  "digits_before n rest =
     (if n < 10 then digit_char n # rest
      else digits_before (n div 10) (digit_char (n mod 10) # rest))"

declare digits_before.simps [simp del]

definition number_text :: "int \<Rightarrow> string" where
  "number_text i =
     (if 0 \<le> i then digits_before (nat i) [] else CHR ''-'' # digits_before (nat (- i)) [])"

text \<open>The result of the viewers whose \<open>checkFit\<close> gives a reason.\<close>

record FitResult =
  fits :: bool
  reason :: string

section \<open>RealTimeARViewer\<close>

datatype region_type = obstacle | clear

text \<open>\<open>DetectedRegion\<close>: \<open>{x, y, width, height, type, confidence}\<close>.\<close>

record DetectedRegion = Box +
  region_type :: region_type
  region_confidence :: real

text \<open>The result of \<open>checkCollision\<close>: \<open>{collision, confidence}\<close>.\<close>

record RegionCollision =
  region_collision :: bool
  collision_confidence :: real

text \<open>
  \<open>checkCollision\<close>: the four furniture edges are computed once, before the loop; the
  loop skips the regions of type \<open>clear\<close> and returns at the first region that overlaps
  and has a confidence above 0.5.
\<close>

fun rt_collisionLoop ::
  "real \<Rightarrow> real \<Rightarrow> real \<Rightarrow> real \<Rightarrow> DetectedRegion list \<Rightarrow> RegionCollision" where
  "rt_collisionLoop furnitureLeft furnitureRight furnitureTop furnitureBottom [] =
     \<lparr> region_collision = False, collision_confidence = 0 \<rparr>"
| "rt_collisionLoop furnitureLeft furnitureRight furnitureTop furnitureBottom (region # regions) =
     (if region_type region = clear
      then rt_collisionLoop furnitureLeft furnitureRight furnitureTop furnitureBottom regions
      else
        (let regionRight = box_x region + box_width region;
             regionBottom = box_y region + box_height region
         in if overlaps furnitureLeft furnitureRight furnitureTop furnitureBottom
                 (box_x region) (box_y region) regionRight regionBottom
               \<and> region_confidence region > 0.5
            then \<lparr> region_collision = True, collision_confidence = region_confidence region \<rparr>
            else rt_collisionLoop furnitureLeft furnitureRight furnitureTop furnitureBottom regions))"

definition rt_checkCollision ::
  "DetectedRegion list \<Rightarrow> real \<Rightarrow> real \<Rightarrow> real \<Rightarrow> real \<Rightarrow> RegionCollision" where
  "rt_checkCollision detectedRegions furnitureX furnitureY furnitureW furnitureH =
     (let furnitureLeft = furnitureX - furnitureW / 2;
          furnitureRight = furnitureX + furnitureW / 2;
          furnitureTop = furnitureY - furnitureH / 2;
          furnitureBottom = furnitureY + furnitureH / 2
      in rt_collisionLoop furnitureLeft furnitureRight furnitureTop furnitureBottom detectedRegions)"

definition rt_checkFit ::
  "FurnitureModel option \<Rightarrow> Placement \<Rightarrow> DetectedRegion list \<Rightarrow> FitResult" where
  "rt_checkFit selectedFurniture st detectedRegions =
     (case selectedFurniture of
        None \<Rightarrow> \<lparr> fits = True, reason = '''' \<rparr>
      | Some f \<Rightarrow>
          (let furnitureWidth = width (dimensions f) * furnitureScale st;
               furnitureHeight = height (dimensions f) * furnitureScale st;
               collisionResult = rt_checkCollision detectedRegions
                 (pos_x (furniturePosition st)) (pos_y (furniturePosition st))
                 furnitureWidth furnitureHeight
           in if region_collision collisionResult
              then \<lparr> fits = False,
                     reason = ''Obstacle detected ('' @
                       number_text (Math_round (collision_confidence collisionResult * 100)) @
                       ''% confidence)'' \<rparr>
              else
                (let inClearZone = list_ex (\<lambda>region.
                       if region_type region \<noteq> clear then False
                       else pos_x (furniturePosition st) \<ge> box_x region \<and>
                            pos_x (furniturePosition st) \<le> box_x region + box_width region \<and>
                            pos_y (furniturePosition st) \<ge> box_y region \<and>
                            pos_y (furniturePosition st) \<le> box_y region + box_height region)
                     detectedRegions
                 in if inClearZone
                    then \<lparr> fits = True, reason = ''Clear floor space detected'' \<rparr>
                    else \<lparr> fits = True, reason = ''Space appears clear'' \<rparr>)))"

definition rt_adjustScale :: "bool \<Rightarrow> real \<Rightarrow> real" where
  "rt_adjustScale increase prev =
     (let newScale = (if increase then prev * 1.2 else prev * 0.8)
      in max 0.1 (min 1.5 newScale))"

definition rt_resetPlacement :: "Screen \<Rightarrow> Placement \<Rightarrow> Placement" where
  "rt_resetPlacement scr st =
     st\<lparr> furniturePosition := \<lparr> pos_x = screenWidth scr / 2, pos_y = screenHeight scr * 0.7 \<rparr>,
         furnitureScale := 0.4 \<rparr>"

text \<open>The initial values of the hooks \<open>furniturePosition\<close> and \<open>furnitureScale\<close>.\<close>

definition rt_initial :: "Screen \<Rightarrow> Placement" where
  "rt_initial scr =
     \<lparr> furniturePosition = \<lparr> pos_x = screenWidth scr / 2, pos_y = screenHeight scr * 0.7 \<rparr>,
       furnitureScale = 0.4 \<rparr>"

text \<open>
  The events that change the placement of RealTimeARViewer and of CloudVisionARViewer:
  a drag, the two scale buttons and the reset button.
\<close>

datatype placement_event = Move real real | Scale bool | Reset

fun rt_step :: "Screen \<Rightarrow> Placement \<Rightarrow> placement_event \<Rightarrow> Placement" where
  "rt_step scr st (Move moveX moveY) =
     st\<lparr> furniturePosition := \<lparr> pos_x = moveX, pos_y = moveY \<rparr> \<rparr>"
| "rt_step scr st (Scale increase) =
     st\<lparr> furnitureScale := rt_adjustScale increase (furnitureScale st) \<rparr>"
| "rt_step scr st Reset = rt_resetPlacement scr st"

section \<open>CloudVisionARViewer\<close>

text \<open>\<open>DetectedObject\<close>: \<open>{label, confidence, boundingBox}\<close>.\<close>

record DetectedObject =
  label :: string
  confidence :: real
  boundingBox :: Box

text \<open>
  The result of \<open>checkCollision\<close>: \<open>{collision, object, confidence}\<close>, where
  \<open>object\<close> is a label or \<open>null\<close>.
\<close>

record ObjectCollision =
  collision :: bool
  object :: "string option"
  object_confidence :: real

record FitResultDetail = FitResult +
  detail :: string

text \<open>
  The loop of \<open>checkCollision\<close> over \<open>detectedObjects\<close>: it skips the objects
  labelled \<open>floor\<close> and returns at the first other object that overlaps. \<open>None\<close> is
  the loop ending without a \<open>return\<close>.
\<close>

fun cv_collisionLoop ::
  "real \<Rightarrow> real \<Rightarrow> real \<Rightarrow> real \<Rightarrow> DetectedObject list \<Rightarrow> ObjectCollision option" where
  "cv_collisionLoop furnitureLeft furnitureRight furnitureTop furnitureBottom [] = None"
| "cv_collisionLoop furnitureLeft furnitureRight furnitureTop furnitureBottom (obj # objs) =
     (if label obj = ''floor''
      then cv_collisionLoop furnitureLeft furnitureRight furnitureTop furnitureBottom objs
      else
        (let box = boundingBox obj;
             objRight = box_x box + box_width box;
             objBottom = box_y box + box_height box
         in if overlaps furnitureLeft furnitureRight furnitureTop furnitureBottom
                 (box_x box) (box_y box) objRight objBottom
            then Some \<lparr> collision = True, object = Some (label obj),
                        object_confidence = confidence obj \<rparr>
            else cv_collisionLoop furnitureLeft furnitureRight furnitureTop furnitureBottom objs))"

definition cv_checkCollision ::
  "DetectedObject list \<Rightarrow> real \<Rightarrow> real \<Rightarrow> real \<Rightarrow> real \<Rightarrow> ObjectCollision" where
  "cv_checkCollision detectedObjects furnitureX furnitureY furnitureW furnitureH =
     (let furnitureLeft = furnitureX - furnitureW / 2;
          furnitureRight = furnitureX + furnitureW / 2;
          furnitureTop = furnitureY - furnitureH / 2;
          furnitureBottom = furnitureY + furnitureH / 2
      in case cv_collisionLoop furnitureLeft furnitureRight furnitureTop furnitureBottom
                detectedObjects of
           Some r \<Rightarrow> r
         | None \<Rightarrow>
             (case find (\<lambda>obj. label obj = ''floor'') detectedObjects of
                Some floorObj \<Rightarrow>
                  (let box = boundingBox floorObj
                   in if furnitureY \<ge> box_y box \<and> furnitureY \<le> box_y box + box_height box
                      then \<lparr> collision = False, object = Some ''floor'', object_confidence = 1 \<rparr>
                      else \<lparr> collision = False, object = None, object_confidence = 0 \<rparr>)
              | None \<Rightarrow> \<lparr> collision = False, object = None, object_confidence = 0 \<rparr>))"

text \<open>A label or \<open>null\<close> inside a template literal.\<close>

definition template_string :: "string option \<Rightarrow> string" where
  "template_string v = (case v of Some s \<Rightarrow> s | None \<Rightarrow> ''null'')"

definition cv_checkFit ::
  "FurnitureModel option \<Rightarrow> Placement \<Rightarrow> DetectedObject list \<Rightarrow> FitResultDetail" where
  "cv_checkFit selectedFurniture st detectedObjects =
     (case selectedFurniture of
        None \<Rightarrow> \<lparr> fits = True, reason = '''', detail = '''' \<rparr>
      | Some f \<Rightarrow>
          (let furnitureWidth = width (dimensions f) * furnitureScale st;
               furnitureHeight = height (dimensions f) * furnitureScale st;
               collisionResult = cv_checkCollision detectedObjects
                 (pos_x (furniturePosition st)) (pos_y (furniturePosition st))
                 furnitureWidth furnitureHeight
           in if collision collisionResult
              then \<lparr> fits = False,
                     reason = ''Blocked by '' @ template_string (object collisionResult),
                     detail = ''('' @
                       number_text (Math_round (object_confidence collisionResult * 100)) @
                       ''% confidence)'' \<rparr>
              else if object collisionResult = Some ''floor''
              then \<lparr> fits = True, reason = ''Clear floor space'', detail = ''Safe to place here'' \<rparr>
              else \<lparr> fits = True, reason = ''Space appears clear'',
                     detail = ''No obstacles detected'' \<rparr>))"

definition cv_adjustScale :: "bool \<Rightarrow> real \<Rightarrow> real" where
  "cv_adjustScale increase prev =
     (let newScale = (if increase then prev * 1.2 else prev * 0.8)
      in max 0.1 (min 1.5 newScale))"

definition cv_resetPlacement :: "Screen \<Rightarrow> Placement \<Rightarrow> Placement" where
  "cv_resetPlacement scr st =
     st\<lparr> furniturePosition := \<lparr> pos_x = screenWidth scr / 2, pos_y = screenHeight scr * 0.75 \<rparr>,
         furnitureScale := 0.4 \<rparr>"

text \<open>The initial values of the hooks \<open>furniturePosition\<close> and \<open>furnitureScale\<close>.\<close>

definition cv_initial :: "Screen \<Rightarrow> Placement" where
  "cv_initial scr =
     \<lparr> furniturePosition = \<lparr> pos_x = screenWidth scr / 2, pos_y = screenHeight scr * 0.7 \<rparr>,
       furnitureScale = 0.4 \<rparr>"

fun cv_step :: "Screen \<Rightarrow> Placement \<Rightarrow> placement_event \<Rightarrow> Placement" where
  "cv_step scr st (Move moveX moveY) =
     st\<lparr> furniturePosition := \<lparr> pos_x = moveX, pos_y = moveY \<rparr> \<rparr>"
| "cv_step scr st (Scale increase) =
     st\<lparr> furnitureScale := cv_adjustScale increase (furnitureScale st) \<rparr>"
| "cv_step scr st Reset = cv_resetPlacement scr st"

section \<open>AIARViewer\<close>

text \<open>
  A detected object \<open>{class, bbox}\<close>; \<open>bbox\<close> is the array \<open>[x, y, width, height]\<close>,
  which \<open>checkCollision\<close> destructures into four numbers.
\<close>

record ClassifiedObject =
  object_class :: string
  bbox :: "real \<times> real \<times> real \<times> real"

text \<open>The result of \<open>checkCollision\<close>: \<open>{collision, objectType}\<close>.\<close>

record ClassCollision =
  class_collision :: bool
  objectType :: "string option"

fun ai_collisionLoop ::
  "real \<Rightarrow> real \<Rightarrow> real \<Rightarrow> real \<Rightarrow> ClassifiedObject list \<Rightarrow> ClassCollision" where
  "ai_collisionLoop furnitureLeft furnitureRight furnitureTop furnitureBottom [] =
     \<lparr> class_collision = False, objectType = None \<rparr>"
| "ai_collisionLoop furnitureLeft furnitureRight furnitureTop furnitureBottom (obj # objs) =
     (case bbox obj of (objX, objY, objWidth, objHeight) \<Rightarrow>
        (let objRight = objX + objWidth;
             objBottom = objY + objHeight
         in if overlaps furnitureLeft furnitureRight furnitureTop furnitureBottom
                 objX objY objRight objBottom
            then \<lparr> class_collision = True, objectType = Some (object_class obj) \<rparr>
            else ai_collisionLoop furnitureLeft furnitureRight furnitureTop furnitureBottom objs))"

definition ai_checkCollision ::
  "ClassifiedObject list \<Rightarrow> real \<Rightarrow> real \<Rightarrow> real \<Rightarrow> real \<Rightarrow> ClassCollision" where
  "ai_checkCollision detectedObjects furnitureX furnitureY furnitureW furnitureH =
     (let furnitureLeft = furnitureX - furnitureW / 2;
          furnitureRight = furnitureX + furnitureW / 2;
          furnitureTop = furnitureY - furnitureH / 2;
          furnitureBottom = furnitureY + furnitureH / 2
      in ai_collisionLoop furnitureLeft furnitureRight furnitureTop furnitureBottom detectedObjects)"

definition ai_checkFit ::
  "FurnitureModel option \<Rightarrow> Placement \<Rightarrow> Screen \<Rightarrow> ClassifiedObject list \<Rightarrow> FitResult" where
  "ai_checkFit selectedFurniture st scr detectedObjects =
     (case selectedFurniture of
        None \<Rightarrow> \<lparr> fits = True, reason = '''' \<rparr>
      | Some f \<Rightarrow>
          (let furnitureWidth = width (dimensions f) * furnitureScale st;
               furnitureHeight = height (dimensions f) * furnitureScale st;
               collisionResult = ai_checkCollision detectedObjects
                 (pos_x (furniturePosition st)) (pos_y (furniturePosition st))
                 furnitureWidth furnitureHeight;
               withinBounds =
                 (pos_x (furniturePosition st) > furnitureWidth / 2 \<and>
                  pos_x (furniturePosition st) < screenWidth scr - furnitureWidth / 2 \<and>
                  pos_y (furniturePosition st) > furnitureHeight / 2 \<and>
                  pos_y (furniturePosition st) < screenHeight scr - furnitureHeight / 2)
           in if class_collision collisionResult
              then \<lparr> fits = False,
                     reason = ''Blocked by '' @ template_string (objectType collisionResult) \<rparr>
              else if \<not> withinBounds
              then \<lparr> fits = False, reason = ''Out of bounds'' \<rparr>
              else \<lparr> fits = True, reason = ''Clear space detected'' \<rparr>))"

section \<open>FurnitureSelector: custom furniture\<close>

text \<open>The hook \<open>customDimensions\<close>: the three texts of the input fields.\<close>

record CustomDimensions =
  width_text :: string
  height_text :: string
  depth_text :: string

text \<open>
  \<open>v || d\<close> on a number \<open>v\<close>: \<open>NaN\<close> (here \<open>None\<close>) and zero are falsy and give \<open>d\<close>.
\<close>

definition or_default :: "real option \<Rightarrow> real \<Rightarrow> real" where
  "or_default v d = (case v of None \<Rightarrow> d | Some r \<Rightarrow> if r = 0 then d else r)"

text \<open>
  \<open>createCustomFurniture\<close>. The built-in \<open>parseFloat\<close> is a parameter: it maps a text
  to the number it parses to, or to \<open>None\<close> when the result is \<open>NaN\<close>. The result is
  the pair handed to \<open>onSelectFurniture\<close>, or \<open>None\<close> when the function returns after
  the alert because no image is uploaded (\<open>null\<close> or the empty string).
\<close>

definition createCustomFurniture ::
  "(string \<Rightarrow> real option) \<Rightarrow> string option \<Rightarrow> CustomDimensions \<Rightarrow>
     (FurnitureModel \<times> string) option" where
  "createCustomFurniture parseFloat uploadedImage customDimensions =
     (case uploadedImage of
        None \<Rightarrow> None
      | Some uri \<Rightarrow>
          if uri = '''' then None
          else Some
            (\<lparr> model_id = ''custom-1'',
                model_name = ''Custom Furniture'',
                model_type = sofa,
                dimensions =
                  \<lparr> width = or_default (parseFloat (width_text customDimensions)) 100,
                    height = or_default (parseFloat (height_text customDimensions)) 100,
                    depth = or_default (parseFloat (depth_text customDimensions)) 100 \<rparr>,
                color = ''#4B0082'' \<rparr>,
             uri))"

section \<open>Helper lemmas: the clamp of \<open>adjustScale\<close>\<close>

lemma simple_adjustScale_range: "0.1 \<le> simple_adjustScale b s \<and> simple_adjustScale b s \<le> 3"
  by (simp add: simple_adjustScale_def Let_def)

lemma smart_adjustScale_range: "0.1 \<le> smart_adjustScale b s \<and> smart_adjustScale b s \<le> 1.5"
  by (simp add: smart_adjustScale_def Let_def)

lemma simple_fold_range:
  "0.1 \<le> s \<Longrightarrow> s \<le> 3 \<Longrightarrow>
   0.1 \<le> fold simple_adjustScale bs s \<and> fold simple_adjustScale bs s \<le> 3"
proof (induction bs arbitrary: s)
  case Nil
  then show ?case by simp
next
  case (Cons b bs)
  have "fold simple_adjustScale (b # bs) s = fold simple_adjustScale bs (simple_adjustScale b s)"
    by simp
  moreover have "0.1 \<le> simple_adjustScale b s" "simple_adjustScale b s \<le> 3"
    using simple_adjustScale_range by blast+
  ultimately show ?case using Cons.IH by metis
qed

lemma smart_fold_range:
  "0.1 \<le> s \<Longrightarrow> s \<le> 1.5 \<Longrightarrow>
   0.1 \<le> fold smart_adjustScale bs s \<and> fold smart_adjustScale bs s \<le> 1.5"
proof (induction bs arbitrary: s)
  case Nil
  then show ?case by simp
next
  case (Cons b bs)
  have "fold smart_adjustScale (b # bs) s = fold smart_adjustScale bs (smart_adjustScale b s)"
    by simp
  moreover have "0.1 \<le> smart_adjustScale b s" "smart_adjustScale b s \<le> 1.5"
    using smart_adjustScale_range by blast+
  ultimately show ?case using Cons.IH by metis
qed

text \<open>Eleven decreases by 0.8 from 1 reach the minimum, which a further decrease keeps.\<close>

lemma smart_decrease_11: "(smart_adjustScale False ^^ 11) 1 = 0.1"
  by (simp add: eval_nat_numeral smart_adjustScale_def)

lemma smart_decrease_fix: "smart_adjustScale False 0.1 = 0.1"
  by (simp add: smart_adjustScale_def)

lemma smart_decrease_saturates: "(smart_adjustScale False ^^ (11 + k)) 1 = 0.1"
proof (induction k)
  case 0
  show ?case using smart_decrease_11 by simp
next
  case (Suc k)
  have "(smart_adjustScale False ^^ (11 + Suc k)) 1 =
        (smart_adjustScale False ^^ Suc (11 + k)) 1"
    by (simp only: add_Suc_right)
  also have "\<dots> = smart_adjustScale False ((smart_adjustScale False ^^ (11 + k)) 1)"
    by (simp only: funpow.simps o_apply)
  also have "\<dots> = smart_adjustScale False 0.1"
    by (simp only: Suc)
  finally show ?case by (simp only: smart_decrease_fix)
qed

lemma smart_decrease_floor: "0.1 \<le> (smart_adjustScale False ^^ n) 1"
proof (cases n)
  case 0
  then show ?thesis by simp
next
  case (Suc m)
  have "(smart_adjustScale False ^^ Suc m) 1 =
        smart_adjustScale False ((smart_adjustScale False ^^ m) 1)"
    by (simp only: funpow.simps o_apply)
  then show ?thesis using Suc smart_adjustScale_range by metis
qed

text \<open>In SimpleARViewer, twenty-two decreases by 0.9 from 1 reach the minimum.\<close>

lemma simple_decrease_22: "(simple_adjustScale False ^^ 22) 1 = 0.1"
  by (simp add: eval_nat_numeral simple_adjustScale_def)

lemma simple_decrease_fix: "simple_adjustScale False 0.1 = 0.1"
  by (simp add: simple_adjustScale_def)

lemma simple_decrease_saturates: "(simple_adjustScale False ^^ (22 + k)) 1 = 0.1"
proof (induction k)
  case 0
  show ?case using simple_decrease_22 by simp
next
  case (Suc k)
  have "(simple_adjustScale False ^^ (22 + Suc k)) 1 =
        (simple_adjustScale False ^^ Suc (22 + k)) 1"
    by (simp only: add_Suc_right)
  also have "\<dots> = simple_adjustScale False ((simple_adjustScale False ^^ (22 + k)) 1)"
    by (simp only: funpow.simps o_apply)
  also have "\<dots> = simple_adjustScale False 0.1"
    by (simp only: Suc)
  finally show ?case by (simp only: simple_decrease_fix)
qed

lemma simple_decrease_floor: "0.1 \<le> (simple_adjustScale False ^^ n) 1"
proof (cases n)
  case 0
  then show ?thesis by simp
next
  case (Suc m)
  have "(simple_adjustScale False ^^ Suc m) 1 =
        simple_adjustScale False ((simple_adjustScale False ^^ m) 1)"
    by (simp only: funpow.simps o_apply)
  then show ?thesis using Suc simple_adjustScale_range by metis
qed

section \<open>The room-dimension check\<close>

text \<open>
  Claim C4. In SimpleARViewer and CameraARViewer, with a furniture item selected,
  \<open>checkFit\<close> is true exactly when the scaled width is at most the room width and the
  scaled depth is at most the room depth. The bounds are inclusive: an item of width 200
  and depth 90 at scale 1 fits a room of width 200 and depth 90, and does not fit a room
  of width 199 and depth 90. The verdict does not depend on \<open>furniturePosition\<close>.
\<close>

theorem room_check_inclusive_position_free:
  "(simple_checkFit (Some f) st room \<longleftrightarrow>
      width (dimensions f) * furnitureScale st \<le> room_width room \<and>
      depth (dimensions f) * furnitureScale st \<le> room_depth room) \<and>
   (camera_checkFit (Some f) st room \<longleftrightarrow>
      width (dimensions f) * furnitureScale st \<le> room_width room \<and>
      depth (dimensions f) * furnitureScale st \<le> room_depth room) \<and>
   simple_checkFit sel (st\<lparr>furniturePosition := p\<rparr>) room = simple_checkFit sel st room \<and>
   camera_checkFit sel (st\<lparr>furniturePosition := p\<rparr>) room = camera_checkFit sel st room \<and>
   simple_checkFit
     (Some (g\<lparr>dimensions := \<lparr>width = 200, height = h, depth = 90\<rparr>\<rparr>))
     \<lparr>furniturePosition = q, furnitureScale = 1\<rparr>
     \<lparr>room_width = 200, room_height = rh, room_depth = 90\<rparr> \<and>
   \<not> simple_checkFit
     (Some (g\<lparr>dimensions := \<lparr>width = 200, height = h, depth = 90\<rparr>\<rparr>))
     \<lparr>furniturePosition = q, furnitureScale = 1\<rparr>
     \<lparr>room_width = 199, room_height = rh, room_depth = 90\<rparr> \<and>
   camera_checkFit
     (Some (g\<lparr>dimensions := \<lparr>width = 200, height = h, depth = 90\<rparr>\<rparr>))
     \<lparr>furniturePosition = q, furnitureScale = 1\<rparr>
     \<lparr>room_width = 200, room_height = rh, room_depth = 90\<rparr> \<and>
   \<not> camera_checkFit
     (Some (g\<lparr>dimensions := \<lparr>width = 200, height = h, depth = 90\<rparr>\<rparr>))
     \<lparr>furniturePosition = q, furnitureScale = 1\<rparr>
     \<lparr>room_width = 199, room_height = rh, room_depth = 90\<rparr>"
  by (simp add: simple_checkFit_def camera_checkFit_def split: option.split)

section \<open>The 3-D room check at floor level\<close>

text \<open>
  Claim C10. For an item placed at the origin of the floor (position \<open>(0, 0, 0)\<close>),
  the 3-D \<open>checkFit\<close> is true exactly when the item's width is at most the room width,
  its depth at most the room depth, and its height at most twice the room height: the
  vertical test compares \<open>y + height / 200\<close> with \<open>roomHeight / 100\<close>.
\<close>

theorem floor_level_fit_double_height:
  "checkFit f \<lparr>vx = 0, vy = 0, vz = 0\<rparr> room \<longleftrightarrow>
     width (dimensions f) \<le> room_width room \<and>
     depth (dimensions f) \<le> room_depth room \<and>
     height (dimensions f) \<le> 2 * room_height room"
  by (auto simp add: checkFit_def getRoomBounds_def Let_def)

section \<open>No furniture selected\<close>

text \<open>
  Claim C6. With no furniture item selected, \<open>checkFit\<close> gives \<open>fits = true\<close> with an
  empty reason in RealTimeARViewer and CloudVisionARViewer (whose detail is empty too),
  and the bare verdict \<open>true\<close> in SmartARViewer, whatever the placement, the scale and
  the detected regions.
\<close>

theorem no_selection_vacuous_fit:
  "rt_checkFit None st regions = \<lparr>fits = True, reason = ''''\<rparr> \<and>
   cv_checkFit None st objs = \<lparr>fits = True, reason = '''', detail = ''''\<rparr> \<and>
   smart_checkFit None sst scr zones = True"
  by (simp add: rt_checkFit_def cv_checkFit_def smart_checkFit_def)

section \<open>Reset\<close>

text \<open>
  Claim C9. After any finite sequence of events (drags, scale changes, earlier resets),
  \<open>resetPlacement\<close> gives one fixed placement: \<open>x\<close> is half the screen width, \<open>y\<close> is
  0.7 of the screen height (0.75 in CloudVisionARViewer), and the scale is the viewer's
  initial scale (0.3 in SmartARViewer, 0.4 in RealTimeARViewer and CloudVisionARViewer).
  The result does not depend on the state before, and a second reset changes nothing.
\<close>

theorem reset_fixed_default:
  "smart_resetPlacement scr (foldl (smart_step scr) st evs) =
     \<lparr> furniturePosition = \<lparr> pos_x = screenWidth scr / 2, pos_y = screenHeight scr * 0.7 \<rparr>,
       furnitureScale = furnitureScale (smart_initial scr), isPlaced = False \<rparr> \<and>
   furnitureScale (smart_initial scr) = 0.3 \<and>
   smart_resetPlacement scr (smart_resetPlacement scr st) = smart_resetPlacement scr st \<and>
   rt_resetPlacement scr (foldl (rt_step scr) pl pevs) =
     \<lparr> furniturePosition = \<lparr> pos_x = screenWidth scr / 2, pos_y = screenHeight scr * 0.7 \<rparr>,
       furnitureScale = furnitureScale (rt_initial scr) \<rparr> \<and>
   furnitureScale (rt_initial scr) = 0.4 \<and>
   rt_resetPlacement scr (rt_resetPlacement scr pl) = rt_resetPlacement scr pl \<and>
   cv_resetPlacement scr (foldl (cv_step scr) pl pevs) =
     \<lparr> furniturePosition = \<lparr> pos_x = screenWidth scr / 2, pos_y = screenHeight scr * 0.75 \<rparr>,
       furnitureScale = furnitureScale (cv_initial scr) \<rparr> \<and>
   furnitureScale (cv_initial scr) = 0.4 \<and>
   cv_resetPlacement scr (cv_resetPlacement scr pl) = cv_resetPlacement scr pl"
  by (simp add: smart_resetPlacement_def rt_resetPlacement_def cv_resetPlacement_def
      smart_initial_def rt_initial_def cv_initial_def)

section \<open>Scale clamping\<close>

text \<open>
  Claim C5. From any scale inside the viewer's range, any finite sequence of
  \<open>adjustScale\<close> calls leaves the scale inside the range: \<open>[0.1, 3]\<close> in
  SimpleARViewer, \<open>[0.1, 1.5]\<close> in SmartARViewer. The clamp saturates: from scale 1,
  repeated decreases by the factor 0.8 (SmartARViewer) never go below 0.1, and from the
  eleventh decrease on the scale is exactly 0.1; with the factor 0.9 of SimpleARViewer
  the same holds from the twenty-second decrease on.
\<close>

theorem adjustScale_stays_in_range:
  "(0.1 \<le> s \<and> s \<le> 3 \<longrightarrow>
      0.1 \<le> fold simple_adjustScale bs s \<and> fold simple_adjustScale bs s \<le> 3) \<and>
   (0.1 \<le> t \<and> t \<le> 1.5 \<longrightarrow>
      0.1 \<le> fold smart_adjustScale bs t \<and> fold smart_adjustScale bs t \<le> 1.5) \<and>
   0.1 \<le> (smart_adjustScale False ^^ n) 1 \<and>
   (11 \<le> n \<longrightarrow> (smart_adjustScale False ^^ n) 1 = 0.1) \<and>
   0.1 \<le> (simple_adjustScale False ^^ n) 1 \<and>
   (22 \<le> n \<longrightarrow> (simple_adjustScale False ^^ n) 1 = 0.1)"
proof -
  have "(smart_adjustScale False ^^ n) 1 = 0.1" if "11 \<le> n"
  proof -
    from that obtain k where "n = 11 + k" using le_Suc_ex by blast
    then show ?thesis using smart_decrease_saturates by blast
  qed
  moreover have "(simple_adjustScale False ^^ n) 1 = 0.1" if "22 \<le> n"
  proof -
    from that obtain k where "n = 22 + k" using le_Suc_ex by blast
    then show ?thesis using simple_decrease_saturates by blast
  qed
  ultimately show ?thesis
    using simple_fold_range smart_fold_range smart_decrease_floor simple_decrease_floor by blast
qed

theorem adjustScale_stays_in_range_witness:
  "(0.1::real) \<le> furnitureScale simple_initial \<and> furnitureScale simple_initial \<le> 3 \<and>
   0.1 \<le> fold simple_adjustScale [True, True, False] (furnitureScale simple_initial) \<and>
   fold simple_adjustScale [True, True, False] (furnitureScale simple_initial) \<le> 3 \<and>
   (0.1::real) \<le> 0.3 \<and> (0.3::real) \<le> 1.5 \<and>
   0.1 \<le> fold smart_adjustScale [True, True, False] 0.3 \<and>
   fold smart_adjustScale [True, True, False] 0.3 \<le> 1.5 \<and>
   0.1 \<le> (smart_adjustScale False ^^ 50) 1 \<and>
   (11::nat) \<le> 50 \<and> (smart_adjustScale False ^^ 50) 1 = 0.1 \<and>
   (22::nat) \<le> 50 \<and> (simple_adjustScale False ^^ 50) 1 = 0.1"
proof -
  have a: "(0.1::real) \<le> furnitureScale simple_initial \<and> furnitureScale simple_initial \<le> 3"
    by (simp add: simple_initial_def)
  have b: "(0.1::real) \<le> 0.3 \<and> (0.3::real) \<le> 1.5" by simp
  have c: "(11::nat) \<le> 50 \<and> (22::nat) \<le> 50" by simp
  show ?thesis
    using a b c
      adjustScale_stays_in_range [of "furnitureScale simple_initial" "[True, True, False]" "0.3" 50]
    by blast
qed

section \<open>Helper lemmas: the collision queries\<close>

lemma smart_checkCollision_iff:
  "smart_checkCollision zones fx fy fw fh \<longleftrightarrow>
     (\<exists>z\<in>set zones.
        fx - fw / 2 \<le> box_x z + box_width z \<and> box_x z \<le> fx + fw / 2 \<and>
        fy - fh / 2 \<le> box_y z + box_height z \<and> box_y z \<le> fy + fh / 2)"
  by (induction zones) (auto simp add: overlaps_def Let_def)

lemma rt_collisionLoop_iff:
  "region_collision (rt_collisionLoop fl fr ft fb rs) \<longleftrightarrow>
     (\<exists>r\<in>set rs. region_type r \<noteq> clear \<and> region_confidence r > 0.5 \<and>
        fl \<le> box_x r + box_width r \<and> box_x r \<le> fr \<and>
        ft \<le> box_y r + box_height r \<and> box_y r \<le> fb)"
  by (induction rs) (auto simp add: overlaps_def Let_def)

lemma rt_collisionLoop_skip:
  "region_confidence r \<le> 0.5 \<Longrightarrow>
   rt_collisionLoop fl fr ft fb (rs1 @ r # rs2) = rt_collisionLoop fl fr ft fb (rs1 @ rs2)"
  by (induction rs1) (auto simp add: Let_def)

lemma cv_collisionLoop_Some:
  "cv_collisionLoop fl fr ft fb objs = Some r \<Longrightarrow>
   \<exists>obj\<in>set objs. label obj \<noteq> ''floor'' \<and>
     overlaps fl fr ft fb (box_x (boundingBox obj)) (box_y (boundingBox obj))
       (box_x (boundingBox obj) + box_width (boundingBox obj))
       (box_y (boundingBox obj) + box_height (boundingBox obj)) \<and>
     r = \<lparr> collision = True, object = Some (label obj), object_confidence = confidence obj \<rparr>"
  by (induction objs) (auto simp add: Let_def split: if_splits)

lemma cv_collisionLoop_None:
  "cv_collisionLoop fl fr ft fb objs = None \<longleftrightarrow>
   \<not> (\<exists>obj\<in>set objs. label obj \<noteq> ''floor'' \<and>
     overlaps fl fr ft fb (box_x (boundingBox obj)) (box_y (boundingBox obj))
       (box_x (boundingBox obj) + box_width (boundingBox obj))
       (box_y (boundingBox obj) + box_height (boundingBox obj)))"
  by (induction objs) (auto simp add: Let_def split: if_splits)

text \<open>A collision is always the value the loop returned, never the floor test after it.\<close>

lemma cv_checkCollision_collision:
  "collision (cv_checkCollision objs fx fy fw fh) \<Longrightarrow>
   cv_collisionLoop (fx - fw / 2) (fx + fw / 2) (fy - fh / 2) (fy + fh / 2) objs =
     Some (cv_checkCollision objs fx fy fw fh)"
  by (auto simp add: cv_checkCollision_def Let_def split: option.splits if_splits)

lemma cv_checkCollision_iff:
  "collision (cv_checkCollision objs fx fy fw fh) \<longleftrightarrow>
   (\<exists>obj\<in>set objs. label obj \<noteq> ''floor'' \<and>
     overlaps (fx - fw / 2) (fx + fw / 2) (fy - fh / 2) (fy + fh / 2)
       (box_x (boundingBox obj)) (box_y (boundingBox obj))
       (box_x (boundingBox obj) + box_width (boundingBox obj))
       (box_y (boundingBox obj) + box_height (boundingBox obj)))"
proof (cases "cv_collisionLoop (fx - fw / 2) (fx + fw / 2) (fy - fh / 2) (fy + fh / 2) objs")
  case None
  then have "\<not> collision (cv_checkCollision objs fx fy fw fh)"
    by (auto simp add: cv_checkCollision_def Let_def split: option.splits)
  then show ?thesis
    using None
      cv_collisionLoop_None [of "fx - fw / 2" "fx + fw / 2" "fy - fh / 2" "fy + fh / 2" objs]
    by simp
next
  case (Some r)
  then have "collision (cv_checkCollision objs fx fy fw fh)"
    using cv_collisionLoop_Some [OF Some] by (auto simp add: cv_checkCollision_def Let_def)
  then show ?thesis
    using Some
      cv_collisionLoop_None [of "fx - fw / 2" "fx + fw / 2" "fy - fh / 2" "fy + fh / 2" objs]
    by simp
qed

text \<open>
  A collision is reported for the first object of the list that overlaps (and, in
  CloudVisionARViewer, is not the floor): no object before it does.
\<close>

lemma cv_collisionLoop_first:
  "cv_collisionLoop fl fr ft fb objs = Some r \<Longrightarrow>
   \<exists>pre obj post. objs = pre @ obj # post \<and>
     (\<forall>p\<in>set pre. label p = ''floor'' \<or>
        \<not> overlaps fl fr ft fb (box_x (boundingBox p)) (box_y (boundingBox p))
          (box_x (boundingBox p) + box_width (boundingBox p))
          (box_y (boundingBox p) + box_height (boundingBox p))) \<and>
     label obj \<noteq> ''floor'' \<and>
     overlaps fl fr ft fb (box_x (boundingBox obj)) (box_y (boundingBox obj))
       (box_x (boundingBox obj) + box_width (boundingBox obj))
       (box_y (boundingBox obj) + box_height (boundingBox obj)) \<and>
     r = \<lparr> collision = True, object = Some (label obj), object_confidence = confidence obj \<rparr>"
proof (induction objs)
  case Nil
  then show ?case by simp
next
  case (Cons a objs)
  let ?hit = "\<lambda>p. overlaps fl fr ft fb (box_x (boundingBox p)) (box_y (boundingBox p))
          (box_x (boundingBox p) + box_width (boundingBox p))
          (box_y (boundingBox p) + box_height (boundingBox p))"
  show ?case
  proof (cases "label a \<noteq> ''floor'' \<and> ?hit a")
    case True
    then have "r = \<lparr> collision = True, object = Some (label a), object_confidence = confidence a \<rparr>"
      using Cons.prems by (simp add: Let_def)
    with True have "a # objs = [] @ a # objs \<and> (\<forall>p\<in>set []. label p = ''floor'' \<or> \<not> ?hit p) \<and>
        label a \<noteq> ''floor'' \<and> ?hit a \<and>
        r = \<lparr> collision = True, object = Some (label a), object_confidence = confidence a \<rparr>"
      by simp
    then show ?thesis by (intro exI)
  next
    case False
    then have "cv_collisionLoop fl fr ft fb objs = Some r"
      using Cons.prems by (auto simp add: Let_def split: if_splits)
    from Cons.IH [OF this] obtain pre obj post where
      d: "objs = pre @ obj # post" and
      n: "\<forall>p\<in>set pre. label p = ''floor'' \<or> \<not> ?hit p" and
      h: "label obj \<noteq> ''floor''" "?hit obj"
         "r = \<lparr> collision = True, object = Some (label obj), object_confidence = confidence obj \<rparr>"
      by blast
    from d have "a # objs = (a # pre) @ obj # post" by simp
    moreover from n False have "\<forall>p\<in>set (a # pre). label p = ''floor'' \<or> \<not> ?hit p" by auto
    ultimately have "a # objs = (a # pre) @ obj # post \<and>
        (\<forall>p\<in>set (a # pre). label p = ''floor'' \<or> \<not> ?hit p) \<and>
        label obj \<noteq> ''floor'' \<and> ?hit obj \<and>
        r = \<lparr> collision = True, object = Some (label obj), object_confidence = confidence obj \<rparr>"
      using h by simp
    then show ?thesis by (intro exI)
  qed
qed



lemma ai_collisionLoop_first:
  "class_collision (ai_collisionLoop fl fr ft fb objs) \<Longrightarrow>
   \<exists>pre obj post. objs = pre @ obj # post \<and>
     (\<forall>p\<in>set pre. \<not> (case bbox p of (objX, objY, objWidth, objHeight) \<Rightarrow>
        overlaps fl fr ft fb objX objY (objX + objWidth) (objY + objHeight))) \<and>
     (case bbox obj of (objX, objY, objWidth, objHeight) \<Rightarrow>
        overlaps fl fr ft fb objX objY (objX + objWidth) (objY + objHeight)) \<and>
     ai_collisionLoop fl fr ft fb objs =
       \<lparr> class_collision = True, objectType = Some (object_class obj) \<rparr>"
proof (induction objs)
  case Nil
  then show ?case by simp
next
  case (Cons a objs)
  let ?hit = "\<lambda>p. case bbox p of (objX, objY, objWidth, objHeight) \<Rightarrow>
        overlaps fl fr ft fb objX objY (objX + objWidth) (objY + objHeight)"
  obtain ax ay aw ah where b: "bbox a = (ax, ay, aw, ah)"
    by (cases "bbox a") auto
  show ?case
  proof (cases "?hit a")
    case True
    then have "ai_collisionLoop fl fr ft fb (a # objs) =
        \<lparr> class_collision = True, objectType = Some (object_class a) \<rparr>"
      by (simp add: b Let_def)
    with True have "a # objs = [] @ a # objs \<and> (\<forall>p\<in>set []. \<not> ?hit p) \<and> ?hit a \<and>
        ai_collisionLoop fl fr ft fb (a # objs) =
          \<lparr> class_collision = True, objectType = Some (object_class a) \<rparr>"
      by simp
    then show ?thesis by (intro exI)
  next
    case False
    then have e: "ai_collisionLoop fl fr ft fb (a # objs) = ai_collisionLoop fl fr ft fb objs"
      by (simp add: b Let_def)
    with Cons.prems have "class_collision (ai_collisionLoop fl fr ft fb objs)" by simp
    from Cons.IH [OF this] obtain pre where
      "\<exists>obj post. objs = pre @ obj # post \<and> (\<forall>p\<in>set pre. \<not> ?hit p) \<and> ?hit obj \<and>
         ai_collisionLoop fl fr ft fb objs =
           \<lparr> class_collision = True, objectType = Some (object_class obj) \<rparr>" ..
    then obtain obj where
      "\<exists>post. objs = pre @ obj # post \<and> (\<forall>p\<in>set pre. \<not> ?hit p) \<and> ?hit obj \<and>
         ai_collisionLoop fl fr ft fb objs =
           \<lparr> class_collision = True, objectType = Some (object_class obj) \<rparr>" ..
    then obtain post where
      all: "objs = pre @ obj # post \<and> (\<forall>p\<in>set pre. \<not> ?hit p) \<and> ?hit obj \<and>
         ai_collisionLoop fl fr ft fb objs =
           \<lparr> class_collision = True, objectType = Some (object_class obj) \<rparr>" ..
    from all have d: "objs = pre @ obj # post" by (rule conjunct1)
    from all have n: "\<forall>p\<in>set pre. \<not> ?hit p" by (rule conjunct2 [THEN conjunct1])
    from all have h: "?hit obj"
         "ai_collisionLoop fl fr ft fb objs =
            \<lparr> class_collision = True, objectType = Some (object_class obj) \<rparr>"
      by (rule conjunct2 [THEN conjunct2, THEN conjunct1],
          rule conjunct2 [THEN conjunct2, THEN conjunct2])
    from d have d': "a # objs = (a # pre) @ obj # post" by simp
    from n False have n': "\<forall>p\<in>set (a # pre). \<not> ?hit p" by simp
    have "a # objs = (a # pre) @ obj # post \<and>
        (\<forall>p\<in>set (a # pre). \<not> ?hit p) \<and> ?hit obj \<and>
        ai_collisionLoop fl fr ft fb (a # objs) =
          \<lparr> class_collision = True, objectType = Some (object_class obj) \<rparr>"
      using d' n' h e by (simp only: simp_thms)
    then show ?thesis by (intro exI)
  qed
qed

section \<open>Touching rectangles\<close>

text \<open>
  Claim C2, as stated: two rectangles that share exactly one edge do not overlap, and a
  rectangle of zero width or height overlaps nothing. The overlap test negates four
  strict comparisons, so it holds at equality. A furniture rectangle whose right edge
  is the left edge of a zone collides with it, in SmartARViewer and in RealTimeARViewer,
  and a furniture rectangle of zero width and height inside a zone collides too.
\<close>

theorem touching_edge_counterexample:
  "(5::real) + 10 / 2 = box_x \<lparr>box_x = 10, box_y = 0, box_width = 10, box_height = 10\<rparr> \<and>
   smart_checkCollision [\<lparr>box_x = 10, box_y = 0, box_width = 10, box_height = 10\<rparr>] 5 5 10 10 \<and>
   smart_checkCollision [\<lparr>box_x = 0, box_y = 0, box_width = 10, box_height = 10\<rparr>] 5 5 0 0 \<and>
   region_collision (rt_checkCollision
     [\<lparr>box_x = 10, box_y = 0, box_width = 10, box_height = 10,
       region_type = obstacle, region_confidence = 0.9\<rparr>] 5 5 10 10)"
  by (simp add: overlaps_def rt_checkCollision_def)

text \<open>
  Claim C2, amended: the collision test reports an overlap exactly when the closed
  rectangles meet, every comparison being inclusive. SmartARViewer reports a collision
  exactly when some zone meets the closed furniture rectangle; RealTimeARViewer exactly
  when some region that is not \<open>clear\<close> and has a confidence above 0.5 does. So a
  furniture rectangle whose right edge is the left edge of a zone, and whose vertical
  extent meets the zone's, collides with it; only a gap of positive size on some axis
  gives no overlap, and rectangles of zero width or height are treated the same way.
\<close>

theorem touching_rectangles_overlap:
  "(smart_checkCollision zones fx fy fw fh \<longleftrightarrow>
     (\<exists>z\<in>set zones.
        fx - fw / 2 \<le> box_x z + box_width z \<and> box_x z \<le> fx + fw / 2 \<and>
        fy - fh / 2 \<le> box_y z + box_height z \<and> box_y z \<le> fy + fh / 2)) \<and>
   (region_collision (rt_checkCollision rs fx fy fw fh) \<longleftrightarrow>
     (\<exists>r\<in>set rs. region_type r \<noteq> clear \<and> region_confidence r > 0.5 \<and>
        fx - fw / 2 \<le> box_x r + box_width r \<and> box_x r \<le> fx + fw / 2 \<and>
        fy - fh / 2 \<le> box_y r + box_height r \<and> box_y r \<le> fy + fh / 2)) \<and>
   (zone \<in> set zones \<and> fx + fw / 2 = box_x zone \<and> 0 \<le> fw \<and> 0 \<le> box_width zone \<and>
    fy - fh / 2 \<le> box_y zone + box_height zone \<and> box_y zone \<le> fy + fh / 2 \<longrightarrow>
      smart_checkCollision zones fx fy fw fh)"
proof (intro conjI impI)
  show "smart_checkCollision zones fx fy fw fh \<longleftrightarrow>
     (\<exists>z\<in>set zones.
        fx - fw / 2 \<le> box_x z + box_width z \<and> box_x z \<le> fx + fw / 2 \<and>
        fy - fh / 2 \<le> box_y z + box_height z \<and> box_y z \<le> fy + fh / 2)"
    by (rule smart_checkCollision_iff)
next
  show "region_collision (rt_checkCollision rs fx fy fw fh) \<longleftrightarrow>
     (\<exists>r\<in>set rs. region_type r \<noteq> clear \<and> region_confidence r > 0.5 \<and>
        fx - fw / 2 \<le> box_x r + box_width r \<and> box_x r \<le> fx + fw / 2 \<and>
        fy - fh / 2 \<le> box_y r + box_height r \<and> box_y r \<le> fy + fh / 2)"
    using rt_collisionLoop_iff by (simp add: rt_checkCollision_def Let_def)
next
  assume a: "zone \<in> set zones \<and> fx + fw / 2 = box_x zone \<and> 0 \<le> fw \<and> 0 \<le> box_width zone \<and>
    fy - fh / 2 \<le> box_y zone + box_height zone \<and> box_y zone \<le> fy + fh / 2"
  then have "fx - fw / 2 \<le> box_x zone + box_width zone" "box_x zone \<le> fx + fw / 2"
    by auto
  with a show "smart_checkCollision zones fx fy fw fh"
    unfolding smart_checkCollision_iff by blast
qed

theorem touching_rectangles_overlap_witness:
  "\<lparr>box_x = 10, box_y = 0, box_width = 10, box_height = 10\<rparr> \<in>
     set [\<lparr>box_x = 10, box_y = 0, box_width = 10, box_height = 10\<rparr>] \<and>
   (5::real) + 10 / 2 = box_x \<lparr>box_x = 10, box_y = 0, box_width = 10, box_height = 10\<rparr> \<and>
   smart_checkCollision [\<lparr>box_x = 10, box_y = 0, box_width = 10, box_height = 10\<rparr>] 5 5 10 10"
proof -
  let ?z = "\<lparr>box_x = 10::real, box_y = 0::real, box_width = 10::real, box_height = 10::real\<rparr>"
  have h: "?z \<in> set [?z] \<and> (5::real) + 10 / 2 = box_x ?z \<and> (0::real) \<le> 10 \<and>
      0 \<le> box_width ?z \<and> (5::real) - 10 / 2 \<le> box_y ?z + box_height ?z \<and>
      box_y ?z \<le> (5::real) + 10 / 2"
    by simp
  show ?thesis
    using h touching_rectangles_overlap [of "[?z]" 5 5 10 10 "[]" ?z] by blast
qed

section \<open>The confidence floor\<close>

text \<open>
  Claim C3, as stated: an obstacle whose confidence is 0.5 or less is ignored by the
  collision query even when it overlaps the furniture, and the verdict is what it would
  be without it. RealTimeARViewer does so; CloudVisionARViewer never compares the
  confidence: a chair with confidence 0.4 over the furniture rectangle blocks the
  placement, which is clear without it.
\<close>

theorem cloudvision_low_confidence_counterexample:
  "cv_checkFit (Some (hd furniturePresets))
     \<lparr>furniturePosition = \<lparr>pos_x = 50, pos_y = 50\<rparr>, furnitureScale = 0.4\<rparr>
     [\<lparr>label = ''chair'', confidence = 0.4,
       boundingBox = \<lparr>box_x = 0, box_y = 0, box_width = 100, box_height = 100\<rparr>\<rparr>] =
     \<lparr>fits = False, reason = ''Blocked by chair'', detail = ''(40% confidence)''\<rparr> \<and>
   cv_checkFit (Some (hd furniturePresets))
     \<lparr>furniturePosition = \<lparr>pos_x = 50, pos_y = 50\<rparr>, furnitureScale = 0.4\<rparr> [] =
     \<lparr>fits = True, reason = ''Space appears clear'', detail = ''No obstacles detected''\<rparr>"
  by (simp add: cv_checkFit_def cv_checkCollision_def furniturePresets_def overlaps_def
      template_string_def number_text_def Math_round_def digits_before.simps digit_char_def)

text \<open>
  Claim C3, amended: in RealTimeARViewer, a region of type \<open>obstacle\<close> whose confidence
  is 0.5 or less, wherever it stands in the list and whether or not it overlaps the
  furniture, changes neither the result of \<open>checkCollision\<close> nor the result of
  \<open>checkFit\<close>: both are what they are without the region. In CloudVisionARViewer the
  collision query has no confidence floor: it reports a collision exactly when some
  object not labelled \<open>floor\<close> overlaps the furniture rectangle, whatever its confidence.
\<close>

theorem low_confidence_obstacle_ignored:
  "(region_type r = obstacle \<and> region_confidence r \<le> 0.5 \<longrightarrow>
      rt_checkCollision (rs1 @ r # rs2) fx fy fw fh = rt_checkCollision (rs1 @ rs2) fx fy fw fh \<and>
      rt_checkFit sel st (rs1 @ r # rs2) = rt_checkFit sel st (rs1 @ rs2)) \<and>
   (collision (cv_checkCollision objs fx fy fw fh) \<longleftrightarrow>
      (\<exists>obj\<in>set objs. label obj \<noteq> ''floor'' \<and>
         overlaps (fx - fw / 2) (fx + fw / 2) (fy - fh / 2) (fy + fh / 2)
           (box_x (boundingBox obj)) (box_y (boundingBox obj))
           (box_x (boundingBox obj) + box_width (boundingBox obj))
           (box_y (boundingBox obj) + box_height (boundingBox obj))))"
proof -
  have "rt_checkCollision (rs1 @ r # rs2) fx fy fw fh = rt_checkCollision (rs1 @ rs2) fx fy fw fh \<and>
        rt_checkFit sel st (rs1 @ r # rs2) = rt_checkFit sel st (rs1 @ rs2)"
    if t: "region_type r = obstacle" and c: "region_confidence r \<le> 0.5"
  proof -
    have coll: "rt_checkCollision (rs1 @ r # rs2) x y w h = rt_checkCollision (rs1 @ rs2) x y w h"
      for x y w h
      using rt_collisionLoop_skip [OF c] by (simp add: rt_checkCollision_def Let_def)
    show ?thesis
      using t by (cases sel) (simp_all add: rt_checkFit_def coll Let_def)
  qed
  then show ?thesis using cv_checkCollision_iff by blast
qed

theorem low_confidence_obstacle_ignored_witness:
  "region_type \<lparr>box_x = 0, box_y = 0, box_width = 100, box_height = 100,
      region_type = obstacle, region_confidence = 0.4\<rparr> = obstacle \<and>
   region_confidence \<lparr>box_x = 0, box_y = 0, box_width = 100, box_height = 100,
      region_type = obstacle, region_confidence = 0.4\<rparr> \<le> 0.5 \<and>
   rt_checkFit (Some (hd furniturePresets))
     \<lparr>furniturePosition = \<lparr>pos_x = 50, pos_y = 50\<rparr>, furnitureScale = 0.4\<rparr>
     ([] @ \<lparr>box_x = 0, box_y = 0, box_width = 100, box_height = 100,
            region_type = obstacle, region_confidence = 0.4\<rparr> # []) =
   rt_checkFit (Some (hd furniturePresets))
     \<lparr>furniturePosition = \<lparr>pos_x = 50, pos_y = 50\<rparr>, furnitureScale = 0.4\<rparr> ([] @ []) \<and>
   rt_checkFit (Some (hd furniturePresets))
     \<lparr>furniturePosition = \<lparr>pos_x = 50, pos_y = 50\<rparr>, furnitureScale = 0.4\<rparr> ([] @ []) =
     \<lparr>fits = True, reason = ''Space appears clear''\<rparr>"
proof -
  let ?r = "\<lparr>box_x = 0, box_y = 0, box_width = 100, box_height = 100,
      region_type = obstacle, region_confidence = 0.4::real\<rparr>"
  have h: "region_type ?r = obstacle \<and> region_confidence ?r \<le> 0.5" by simp
  have e: "rt_checkFit (Some (hd furniturePresets))
     \<lparr>furniturePosition = \<lparr>pos_x = 50, pos_y = 50\<rparr>, furnitureScale = 0.4\<rparr> ([] @ []) =
     \<lparr>fits = True, reason = ''Space appears clear''\<rparr>"
    by (simp add: rt_checkFit_def rt_checkCollision_def furniturePresets_def)
  show ?thesis
    using h e low_confidence_obstacle_ignored [of ?r "[]" "[]" 0 0 0 0 "Some (hd furniturePresets)"
      "\<lparr>furniturePosition = \<lparr>pos_x = 50, pos_y = 50\<rparr>, furnitureScale = 0.4\<rparr>" "[]"]
    by blast
qed

section \<open>Collision before every other check\<close>

text \<open>
  Claim C1. For every selected item, placement, scale and list of detected objects:
  when \<open>checkCollision\<close> reports a collision of the item's centred rectangle,
  \<open>checkFit\<close> gives \<open>fits = false\<close> and a reason that names the blocking object,
  \<open>Blocked by\<close> followed by its label; in CloudVisionARViewer the detail holds that
  object's confidence in percent. The object named is the blocking one: it is the first
  object of the list whose box overlaps the item's centred rectangle (in
  CloudVisionARViewer the first such object not labelled \<open>floor\<close>), and no object
  before it in the list overlaps. This holds whatever the screen size, so whether or not
  the placement is within the screen bounds that AIARViewer tests afterwards.
\<close>

theorem collision_dominates_fit:
  "(collision (cv_checkCollision objs (pos_x (furniturePosition st)) (pos_y (furniturePosition st))
        (width (dimensions f) * furnitureScale st) (height (dimensions f) * furnitureScale st)) \<longrightarrow>
      (\<exists>pre obj post. objs = pre @ obj # post \<and>
         (\<forall>p\<in>set pre. label p = ''floor'' \<or>
            \<not> overlaps
              (pos_x (furniturePosition st) - width (dimensions f) * furnitureScale st / 2)
              (pos_x (furniturePosition st) + width (dimensions f) * furnitureScale st / 2)
              (pos_y (furniturePosition st) - height (dimensions f) * furnitureScale st / 2)
              (pos_y (furniturePosition st) + height (dimensions f) * furnitureScale st / 2)
              (box_x (boundingBox p)) (box_y (boundingBox p))
              (box_x (boundingBox p) + box_width (boundingBox p))
              (box_y (boundingBox p) + box_height (boundingBox p))) \<and>
         label obj \<noteq> ''floor'' \<and>
         overlaps
           (pos_x (furniturePosition st) - width (dimensions f) * furnitureScale st / 2)
           (pos_x (furniturePosition st) + width (dimensions f) * furnitureScale st / 2)
           (pos_y (furniturePosition st) - height (dimensions f) * furnitureScale st / 2)
           (pos_y (furniturePosition st) + height (dimensions f) * furnitureScale st / 2)
           (box_x (boundingBox obj)) (box_y (boundingBox obj))
           (box_x (boundingBox obj) + box_width (boundingBox obj))
           (box_y (boundingBox obj) + box_height (boundingBox obj)) \<and>
         cv_checkFit (Some f) st objs =
           \<lparr> fits = False, reason = ''Blocked by '' @ label obj,
             detail = ''('' @ number_text (Math_round (confidence obj * 100)) @ ''% confidence)'' \<rparr>)) \<and>
   (class_collision (ai_checkCollision cobjs (pos_x (furniturePosition st)) (pos_y (furniturePosition st))
        (width (dimensions f) * furnitureScale st) (height (dimensions f) * furnitureScale st)) \<longrightarrow>
      (\<exists>pre obj post. cobjs = pre @ obj # post \<and>
         (\<forall>p\<in>set pre. \<not> (case bbox p of (objX, objY, objWidth, objHeight) \<Rightarrow>
            overlaps
              (pos_x (furniturePosition st) - width (dimensions f) * furnitureScale st / 2)
              (pos_x (furniturePosition st) + width (dimensions f) * furnitureScale st / 2)
              (pos_y (furniturePosition st) - height (dimensions f) * furnitureScale st / 2)
              (pos_y (furniturePosition st) + height (dimensions f) * furnitureScale st / 2)
              objX objY (objX + objWidth) (objY + objHeight))) \<and>
         (case bbox obj of (objX, objY, objWidth, objHeight) \<Rightarrow>
            overlaps
              (pos_x (furniturePosition st) - width (dimensions f) * furnitureScale st / 2)
              (pos_x (furniturePosition st) + width (dimensions f) * furnitureScale st / 2)
              (pos_y (furniturePosition st) - height (dimensions f) * furnitureScale st / 2)
              (pos_y (furniturePosition st) + height (dimensions f) * furnitureScale st / 2)
              objX objY (objX + objWidth) (objY + objHeight)) \<and>
         ai_checkFit (Some f) st scr cobjs =
           \<lparr> fits = False, reason = ''Blocked by '' @ object_class obj \<rparr>))"
proof (intro conjI impI)
  let ?x = "pos_x (furniturePosition st)" and ?y = "pos_y (furniturePosition st)"
  let ?w = "width (dimensions f) * furnitureScale st" and ?h = "height (dimensions f) * furnitureScale st"
  let ?hit = "\<lambda>p. overlaps (?x - ?w / 2) (?x + ?w / 2) (?y - ?h / 2) (?y + ?h / 2)
      (box_x (boundingBox p)) (box_y (boundingBox p))
      (box_x (boundingBox p) + box_width (boundingBox p))
      (box_y (boundingBox p) + box_height (boundingBox p))"
  assume c: "collision (cv_checkCollision objs ?x ?y ?w ?h)"
  from cv_collisionLoop_first [OF cv_checkCollision_collision [OF c]]
  obtain pre where "\<exists>obj post. objs = pre @ obj # post \<and>
      (\<forall>p\<in>set pre. label p = ''floor'' \<or> \<not> ?hit p) \<and> label obj \<noteq> ''floor'' \<and> ?hit obj \<and>
      cv_checkCollision objs ?x ?y ?w ?h =
        \<lparr> collision = True, object = Some (label obj), object_confidence = confidence obj \<rparr>" ..
  then obtain obj where "\<exists>post. objs = pre @ obj # post \<and>
      (\<forall>p\<in>set pre. label p = ''floor'' \<or> \<not> ?hit p) \<and> label obj \<noteq> ''floor'' \<and> ?hit obj \<and>
      cv_checkCollision objs ?x ?y ?w ?h =
        \<lparr> collision = True, object = Some (label obj), object_confidence = confidence obj \<rparr>" ..
  then obtain post where all: "objs = pre @ obj # post \<and>
      (\<forall>p\<in>set pre. label p = ''floor'' \<or> \<not> ?hit p) \<and> label obj \<noteq> ''floor'' \<and> ?hit obj \<and>
      cv_checkCollision objs ?x ?y ?w ?h =
        \<lparr> collision = True, object = Some (label obj), object_confidence = confidence obj \<rparr>" ..
  then have r: "cv_checkCollision objs ?x ?y ?w ?h =
        \<lparr> collision = True, object = Some (label obj), object_confidence = confidence obj \<rparr>"
    by (rule conjunct2 [THEN conjunct2, THEN conjunct2, THEN conjunct2])
  have fit: "cv_checkFit (Some f) st objs =
      \<lparr> fits = False, reason = ''Blocked by '' @ label obj,
        detail = ''('' @ number_text (Math_round (confidence obj * 100)) @ ''% confidence)'' \<rparr>"
    by (simp add: cv_checkFit_def r template_string_def)
  have "objs = pre @ obj # post \<and>
      (\<forall>p\<in>set pre. label p = ''floor'' \<or> \<not> ?hit p) \<and> label obj \<noteq> ''floor'' \<and> ?hit obj \<and>
      cv_checkFit (Some f) st objs =
        \<lparr> fits = False, reason = ''Blocked by '' @ label obj,
          detail = ''('' @ number_text (Math_round (confidence obj * 100)) @ ''% confidence)'' \<rparr>"
    by (rule conjI [OF all [THEN conjunct1]
          conjI [OF all [THEN conjunct2, THEN conjunct1]
            conjI [OF all [THEN conjunct2, THEN conjunct2, THEN conjunct1]
              conjI [OF all [THEN conjunct2, THEN conjunct2, THEN conjunct2, THEN conjunct1]
                fit]]]])
  then show "\<exists>pre obj post. objs = pre @ obj # post \<and>
      (\<forall>p\<in>set pre. label p = ''floor'' \<or> \<not> ?hit p) \<and> label obj \<noteq> ''floor'' \<and> ?hit obj \<and>
      cv_checkFit (Some f) st objs =
        \<lparr> fits = False, reason = ''Blocked by '' @ label obj,
          detail = ''('' @ number_text (Math_round (confidence obj * 100)) @ ''% confidence)'' \<rparr>"
    by (intro exI)
next
  let ?x = "pos_x (furniturePosition st)" and ?y = "pos_y (furniturePosition st)"
  let ?w = "width (dimensions f) * furnitureScale st" and ?h = "height (dimensions f) * furnitureScale st"
  let ?hit = "\<lambda>p. case bbox p of (objX, objY, objWidth, objHeight) \<Rightarrow>
      overlaps (?x - ?w / 2) (?x + ?w / 2) (?y - ?h / 2) (?y + ?h / 2)
        objX objY (objX + objWidth) (objY + objHeight)"
  assume c: "class_collision (ai_checkCollision cobjs ?x ?y ?w ?h)"
  have u: "ai_checkCollision cobjs ?x ?y ?w ?h =
      ai_collisionLoop (?x - ?w / 2) (?x + ?w / 2) (?y - ?h / 2) (?y + ?h / 2) cobjs"
    by (simp add: ai_checkCollision_def Let_def)
  from c have "class_collision
      (ai_collisionLoop (?x - ?w / 2) (?x + ?w / 2) (?y - ?h / 2) (?y + ?h / 2) cobjs)"
    by (simp only: u)
  from ai_collisionLoop_first [OF this]
  obtain pre where "\<exists>obj post. cobjs = pre @ obj # post \<and> (\<forall>p\<in>set pre. \<not> ?hit p) \<and> ?hit obj \<and>
      ai_collisionLoop (?x - ?w / 2) (?x + ?w / 2) (?y - ?h / 2) (?y + ?h / 2) cobjs =
        \<lparr> class_collision = True, objectType = Some (object_class obj) \<rparr>" ..
  then obtain obj where "\<exists>post. cobjs = pre @ obj # post \<and> (\<forall>p\<in>set pre. \<not> ?hit p) \<and> ?hit obj \<and>
      ai_collisionLoop (?x - ?w / 2) (?x + ?w / 2) (?y - ?h / 2) (?y + ?h / 2) cobjs =
        \<lparr> class_collision = True, objectType = Some (object_class obj) \<rparr>" ..
  then obtain post where all: "cobjs = pre @ obj # post \<and> (\<forall>p\<in>set pre. \<not> ?hit p) \<and> ?hit obj \<and>
      ai_collisionLoop (?x - ?w / 2) (?x + ?w / 2) (?y - ?h / 2) (?y + ?h / 2) cobjs =
        \<lparr> class_collision = True, objectType = Some (object_class obj) \<rparr>" ..
  then have "ai_collisionLoop (?x - ?w / 2) (?x + ?w / 2) (?y - ?h / 2) (?y + ?h / 2) cobjs =
        \<lparr> class_collision = True, objectType = Some (object_class obj) \<rparr>"
    by (rule conjunct2 [THEN conjunct2, THEN conjunct2])
  then have r: "ai_checkCollision cobjs ?x ?y ?w ?h =
        \<lparr> class_collision = True, objectType = Some (object_class obj) \<rparr>"
    by (simp only: u)
  have fit: "ai_checkFit (Some f) st scr cobjs =
      \<lparr> fits = False, reason = ''Blocked by '' @ object_class obj \<rparr>"
    by (simp add: ai_checkFit_def r template_string_def Let_def)
  have "cobjs = pre @ obj # post \<and> (\<forall>p\<in>set pre. \<not> ?hit p) \<and> ?hit obj \<and>
      ai_checkFit (Some f) st scr cobjs =
        \<lparr> fits = False, reason = ''Blocked by '' @ object_class obj \<rparr>"
    by (rule conjI [OF all [THEN conjunct1]
          conjI [OF all [THEN conjunct2, THEN conjunct1]
            conjI [OF all [THEN conjunct2, THEN conjunct2, THEN conjunct1] fit]]])
  then show "\<exists>pre obj post. cobjs = pre @ obj # post \<and> (\<forall>p\<in>set pre. \<not> ?hit p) \<and> ?hit obj \<and>
      ai_checkFit (Some f) st scr cobjs =
        \<lparr> fits = False, reason = ''Blocked by '' @ object_class obj \<rparr>"
    by (intro exI)
qed

text \<open>
  An instance with two candidates. In CloudVisionARViewer a sofa placed over a chair, clear
  of a person listed before the chair, is blocked by the chair, with the chair's
  confidence in the detail. In AIARViewer a sofa that is out of the screen bounds and over
  a chair, clear of a person listed before it, is blocked by the chair.
\<close>

theorem collision_dominates_fit_witness:
  "collision (cv_checkCollision
      [\<lparr>label = ''floor'', confidence = 0.95,
         boundingBox = \<lparr>box_x = 0, box_y = 600, box_width = 400, box_height = 200\<rparr>\<rparr>,
       \<lparr>label = ''person'', confidence = 0.9,
         boundingBox = \<lparr>box_x = 80, box_y = 120, box_width = 120, box_height = 320\<rparr>\<rparr>,
       \<lparr>label = ''chair'', confidence = 0.75,
         boundingBox = \<lparr>box_x = 240, box_y = 320, box_width = 80, box_height = 200\<rparr>\<rparr>]
      300 500 (200 * 0.4) (85 * 0.4)) \<and>
   cv_checkFit (Some (hd furniturePresets))
      \<lparr>furniturePosition = \<lparr>pos_x = 300, pos_y = 500\<rparr>, furnitureScale = 0.4\<rparr>
      [\<lparr>label = ''floor'', confidence = 0.95,
         boundingBox = \<lparr>box_x = 0, box_y = 600, box_width = 400, box_height = 200\<rparr>\<rparr>,
       \<lparr>label = ''person'', confidence = 0.9,
         boundingBox = \<lparr>box_x = 80, box_y = 120, box_width = 120, box_height = 320\<rparr>\<rparr>,
       \<lparr>label = ''chair'', confidence = 0.75,
         boundingBox = \<lparr>box_x = 240, box_y = 320, box_width = 80, box_height = 200\<rparr>\<rparr>] =
     \<lparr>fits = False, reason = ''Blocked by chair'', detail = ''(75% confidence)''\<rparr> \<and>
   class_collision (ai_checkCollision
      [\<lparr>object_class = ''person'', bbox = (0, 0, 50, 50)\<rparr>,
       \<lparr>object_class = ''chair'', bbox = (80, 160, 240, 400)\<rparr>]
      90 300 (200 * 1.5) (85 * 1.5)) \<and>
   \<not> (90 > (200 * 1.5) / (2::real)) \<and>
   ai_checkFit (Some (hd furniturePresets))
      \<lparr>furniturePosition = \<lparr>pos_x = 90, pos_y = 300\<rparr>, furnitureScale = 1.5\<rparr>
      \<lparr>screenWidth = 400, screenHeight = 800\<rparr>
      [\<lparr>object_class = ''person'', bbox = (0, 0, 50, 50)\<rparr>,
       \<lparr>object_class = ''chair'', bbox = (80, 160, 240, 400)\<rparr>] =
     \<lparr>fits = False, reason = ''Blocked by chair''\<rparr>"
proof -
  let ?objs = "[\<lparr>label = ''floor'', confidence = 0.95,
         boundingBox = \<lparr>box_x = 0, box_y = 600, box_width = 400, box_height = 200\<rparr>\<rparr>,
       \<lparr>label = ''person'', confidence = 0.9,
         boundingBox = \<lparr>box_x = 80, box_y = 120, box_width = 120, box_height = 320\<rparr>\<rparr>,
       \<lparr>label = ''chair'', confidence = 0.75::real,
         boundingBox = \<lparr>box_x = 240, box_y = 320, box_width = 80, box_height = 200\<rparr>\<rparr>]"
  let ?cobjs = "[\<lparr>object_class = ''person'', bbox = (0::real, 0::real, 50::real, 50::real)\<rparr>,
       \<lparr>object_class = ''chair'', bbox = (80, 160, 240, 400)\<rparr>]"
  let ?st = "\<lparr>furniturePosition = \<lparr>pos_x = 300, pos_y = 500\<rparr>, furnitureScale = 0.4\<rparr>"
  let ?st' = "\<lparr>furniturePosition = \<lparr>pos_x = 90, pos_y = 300\<rparr>, furnitureScale = 1.5\<rparr>"
  let ?scr = "\<lparr>screenWidth = 400, screenHeight = 800\<rparr>"
  have c1: "collision (cv_checkCollision ?objs 300 500 (200 * 0.4) (85 * 0.4))"
    by (simp add: cv_checkCollision_def overlaps_def)
  have c2: "class_collision (ai_checkCollision ?cobjs 90 300 (200 * 1.5) (85 * 1.5))"
    by (simp add: ai_checkCollision_def overlaps_def)
  have n: "\<not> (90 > (200 * 1.5) / (2::real))" by simp
  have r1: "cv_checkFit (Some (hd furniturePresets)) ?st ?objs =
     \<lparr>fits = False, reason = ''Blocked by chair'', detail = ''(75% confidence)''\<rparr>"
    by (simp add: cv_checkFit_def cv_checkCollision_def furniturePresets_def overlaps_def
        template_string_def number_text_def Math_round_def digits_before.simps digit_char_def)
  have r2: "ai_checkFit (Some (hd furniturePresets)) ?st' ?scr ?cobjs =
     \<lparr>fits = False, reason = ''Blocked by chair''\<rparr>"
    by (simp add: ai_checkFit_def ai_checkCollision_def furniturePresets_def overlaps_def
        template_string_def)
  show ?thesis
    using collision_dominates_fit [of ?objs ?st "hd furniturePresets" ?cobjs ?scr]
    by (intro conjI c1 c2 n r1 r2)
qed

section \<open>Custom furniture: the fallback dimensions\<close>

text \<open>
  Claim C8. A custom item is built from the three texts of the input fields; a text that
  does not parse as a number falls back to a default. The initial texts and the
  placeholders of the fields are 100, 100 and 50, and the claim names these as the
  defaults. In \<open>createCustomFurniture\<close> the fallback of the width and of the height is
  100, and the fallback of the depth is 100 as well, not 50.
\<close>

theorem custom_fallback_is_100:
  "uri \<noteq> '''' \<longrightarrow>
     (\<exists>m. createCustomFurniture pf (Some uri) cd = Some (m, uri) \<and>
        (pf (width_text cd) = None \<longrightarrow> width (dimensions m) = 100) \<and>
        (pf (height_text cd) = None \<longrightarrow> height (dimensions m) = 100) \<and>
        (pf (depth_text cd) = None \<longrightarrow> depth (dimensions m) = 100))"
  by (simp add: createCustomFurniture_def or_default_def)

text \<open>
  An instance: the depth field left empty (its placeholder shows 50), with \<open>parseFloat\<close>
  giving 100 on the text \<open>100\<close> and \<open>NaN\<close> on the empty text. The depth of the item is 100.
\<close>

theorem custom_fallback_is_100_witness:
  "''file:///sofa.jpg'' \<noteq> '''' \<and>
   createCustomFurniture (\<lambda>s. if s = ''100'' then Some 100 else None)
     (Some ''file:///sofa.jpg'')
     \<lparr>width_text = ''100'', height_text = ''100'', depth_text = ''''\<rparr> =
   Some (\<lparr> model_id = ''custom-1'', model_name = ''Custom Furniture'', model_type = sofa,
           dimensions = \<lparr> width = 100, height = 100, depth = 100 \<rparr>, color = ''#4B0082'' \<rparr>,
         ''file:///sofa.jpg'')"
  using custom_fallback_is_100 [of "''file:///sofa.jpg''" "\<lambda>s. if s = ''100'' then Some 100 else None"
      "\<lparr>width_text = ''100'', height_text = ''100'', depth_text = ''''\<rparr>"]
  by (simp add: createCustomFurniture_def or_default_def)

end
